theory Spec2Isabelle
  imports Main "HOL-Library.Word" "HOL-Library.Sublist" "HOL-Library.Char_ord"
begin

unbundle bit_operations_syntax

section \<open>The wiki of \<^verbatim>\<open>gowiki.go\<close>\<close>

text \<open>
  Go strings and byte slices are sequences of bytes; both are modelled as \<^typ>\<open>string\<close>
  (a list of 8-bit characters), so \<^verbatim>\<open>[]byte(body)\<close> is the identity.
\<close>

subsection \<open>Pages\<close>

record Page =
  Title :: string
  Body :: string

subsection \<open>The file system behind \<^verbatim>\<open>ioutil.ReadFile\<close> and \<^verbatim>\<open>ioutil.WriteFile\<close>\<close>

text \<open>
  The two library calls are the program's only contact with the disk. Their documented
  behaviour: \<^verbatim>\<open>ReadFile\<close> returns the whole content of the named file, or the error
  of the failed open; \<^verbatim>\<open>WriteFile(name, data, perm)\<close> creates the file with permissions
  \<^verbatim>\<open>perm\<close> (before umask) when it does not exist, and otherwise truncates it and writes
  \<^verbatim>\<open>data\<close> without changing its permissions.

  Why the operating system refuses an open (a missing directory, access rights, a name
  that is a directory, ...) is left to the environment: \<open>rfault\<close> and \<open>wfault\<close> give, for
  every name, the error with which an open for reading or for writing is refused, if any.
\<close>

datatype errno = ENOENT | EACCES | EISDIR | ENOTDIR | EINVAL

fun errno_text :: "errno \<Rightarrow> string" where
  "errno_text ENOENT = ''no such file or directory''"
| "errno_text EACCES = ''permission denied''"
| "errno_text EISDIR = ''is a directory''"
| "errno_text ENOTDIR = ''not a directory''"
| "errno_text EINVAL = ''invalid argument''"

text \<open>Go's \<^verbatim>\<open>*os.PathError\<close>: the operation, the path and the underlying error.\<close>

datatype error = PathError string string errno

fun Error_text :: "error \<Rightarrow> string" where
  "Error_text (PathError op p e) = op @ '' '' @ p @ '': '' @ errno_text e"

type_synonym FileMode = "32 word"

record fnode =
  content :: string
  mode :: FileMode

record fs =
  files :: "string \<rightharpoonup> fnode"
  umask :: FileMode
  rfault :: "string \<rightharpoonup> errno"
  wfault :: "string \<rightharpoonup> errno"

definition ReadFile :: "string \<Rightarrow> fs \<Rightarrow> error + string" where
  "ReadFile filename s =
     (case rfault s filename of
        Some e \<Rightarrow> Inl (PathError ''open'' filename e)
      | None \<Rightarrow>
          (case files s filename of
             None \<Rightarrow> Inl (PathError ''open'' filename ENOENT)
           | Some f \<Rightarrow> Inr (content f)))"

definition WriteFile :: "string \<Rightarrow> string \<Rightarrow> FileMode \<Rightarrow> fs \<Rightarrow> error + fs" where
  "WriteFile filename data perm s =
     (case wfault s filename of
        Some e \<Rightarrow> Inl (PathError ''open'' filename e)
      | None \<Rightarrow>
          (case files s filename of
             None \<Rightarrow>
               Inr (s\<lparr>files := (files s)(filename \<mapsto>
                      \<lparr>content = data, mode = perm AND NOT (umask s)\<rparr>)\<rparr>)
           | Some f \<Rightarrow>
               Inr (s\<lparr>files := (files s)(filename \<mapsto> f\<lparr>content := data\<rparr>)\<rparr>)))"

subsection \<open>\<^verbatim>\<open>Page.save\<close> and \<^verbatim>\<open>loadPage\<close>\<close>

definition filename_of :: "string \<Rightarrow> string" where
  "filename_of title = ''data/'' @ title @ ''.txt''"

text \<open>\<^verbatim>\<open>0600\<close> is octal: read and write for the owner, nothing for group and others.\<close>

definition save :: "Page \<Rightarrow> fs \<Rightarrow> error + fs" where
  "save p s = WriteFile (filename_of (Title p)) (Body p) 384 s"

definition loadPage :: "string \<Rightarrow> fs \<Rightarrow> error + Page" where
  "loadPage title s =
     (case ReadFile (filename_of title) s of
        Inl err \<Rightarrow> Inl err
      | Inr body \<Rightarrow> Inr \<lparr>Title = title, Body = body\<rparr>)"

subsection \<open>\<^verbatim>\<open>validPath\<close>: the regular expression \<^verbatim>\<open>^/(edit|save|view)/([a-zA-Z0-9]+)$\<close>\<close>

definition alnum :: "char \<Rightarrow> bool" where
  "alnum c \<longleftrightarrow>
     (CHR ''a'' \<le> c \<and> c \<le> CHR ''z'') \<or> (CHR ''A'' \<le> c \<and> c \<le> CHR ''Z'') \<or>
     (CHR ''0'' \<le> c \<and> c \<le> CHR ''9'')"

text \<open>The second group, \<^verbatim>\<open>[a-zA-Z0-9]+\<close>: one or more alphanumeric characters.\<close>

definition alnum_plus :: "string \<Rightarrow> bool" where
  "alnum_plus t \<longleftrightarrow> t \<noteq> [] \<and> list_all alnum t"

text \<open>
  The alternatives of the first group are tried in order on the text after the leading
  slash; the pattern is anchored at both ends (in Go, \<^verbatim>\<open>$\<close> without the \<^verbatim>\<open>m\<close> flag is
  the end of the text), so what follows the second slash must be the whole second group.
  A match is the list of the whole match and the two groups.
\<close>

fun match_groups :: "string list \<Rightarrow> string \<Rightarrow> string \<Rightarrow> string list option" where
  "match_groups [] whole rest = None"
| "match_groups (a # as) whole rest =
     (if take (length a + 1) rest = a @ ''/'' \<and> alnum_plus (drop (length a + 1) rest)
      then Some [whole, a, drop (length a + 1) rest]
      else match_groups as whole rest)"

definition FindStringSubmatch :: "string \<Rightarrow> string list option" where
  "FindStringSubmatch p =
     (case p of
        [] \<Rightarrow> None
      | c # rest \<Rightarrow>
          if c = CHR ''/'' then match_groups [''edit'', ''save'', ''view''] p rest else None)"

subsection \<open>Requests and responses\<close>

text \<open>
  Of a \<^verbatim>\<open>*http.Request\<close> the program reads \<^verbatim>\<open>r.URL.Path\<close> and \<^verbatim>\<open>r.FormValue("body")\<close>;
  the library also reads \<^verbatim>\<open>r.Method\<close>. \<open>Query\<close> holds the parameters of the URL's query
  string and \<open>PostBody\<close> those of a form-encoded request body, each in order of appearance.
\<close>

record request =
  Method :: string
  Path :: string
  Query :: "(string \<times> string) list"
  PostBody :: "(string \<times> string) list"

text \<open>
  \<^verbatim>\<open>Request.FormValue\<close>: the first value of the key in \<^verbatim>\<open>r.Form\<close>, or the empty string.
  \<^verbatim>\<open>ParseForm\<close> reads the request body for POST, PUT and PATCH only, and body parameters
  take precedence over those of the query string.
\<close>

definition ParseForm :: "request \<Rightarrow> (string \<times> string) list" where
  "ParseForm r =
     (if Method r = ''POST'' \<or> Method r = ''PUT'' \<or> Method r = ''PATCH''
      then PostBody r else []) @ Query r"

definition FormValue :: "request \<Rightarrow> string \<Rightarrow> string" where
  "FormValue r key = (case map_of (ParseForm r) key of None \<Rightarrow> [] | Some v \<Rightarrow> v)"

text \<open>
  A response is what the handler did to its \<^verbatim>\<open>http.ResponseWriter\<close>:
  \<^item> \<open>Redirect url code\<close> is \<^verbatim>\<open>http.Redirect(w, r, url, code)\<close>;
  \<^item> \<open>Error msg code\<close> is \<^verbatim>\<open>http.Error(w, msg, code)\<close>;
  \<^item> \<open>Executed out err\<close> is a template execution that wrote \<open>out\<close> and, when it
    returned the error \<open>err\<close>, the call \<^verbatim>\<open>http.Error(w, err, 500)\<close> after it;
  \<^item> \<open>PathRedirect p\<close> is the multiplexer's own permanent redirect to the URL of path
    \<open>p\<close> (with the request's query);
  \<^item> \<open>WriteHeader code\<close> is a bare status line.
\<close>

datatype response =
    Redirect string nat
  | Error string nat
  | Executed string "string option"
  | PathRedirect string
  | WriteHeader nat

definition StatusFound :: nat where "StatusFound = 302"
definition StatusInternalServerError :: nat where "StatusInternalServerError = 500"
definition StatusNotFound :: nat where "StatusNotFound = 404"
definition StatusMovedPermanently :: nat where "StatusMovedPermanently = 301"
definition StatusBadRequest :: nat where "StatusBadRequest = 400"
definition StatusOK :: nat where "StatusOK = 200"

text \<open>
  The status code sent: the first write fixes it at 200, so an error after template output
  has been written no longer changes it.
\<close>

fun status :: "response \<Rightarrow> nat" where
  "status (Redirect url code) = code"
| "status (Error msg code) = code"
| "status (Executed out None) = StatusOK"
| "status (Executed out (Some err)) = (if out = [] then StatusInternalServerError else StatusOK)"
| "status (PathRedirect p) = StatusMovedPermanently"
| "status (WriteHeader code) = code"

text \<open>\<^verbatim>\<open>http.NotFound(w, r)\<close> is \<^verbatim>\<open>http.Error(w, "404 page not found", http.StatusNotFound)\<close>.\<close>

definition NotFound :: response where
  "NotFound = Error ''404 page not found'' StatusNotFound"

subsection \<open>Templates\<close>

text \<open>
  \<^verbatim>\<open>templates\<close> is parsed at startup from \<^verbatim>\<open>tmpl/edit.html\<close> and \<^verbatim>\<open>tmpl/view.html\<close>, and the
  program does not start without them. The two files are not part of the source, so what
  each computes from a page is a parameter: the output it writes and the error it returns,
  if any. \<^verbatim>\<open>ParseFiles\<close> names each template by the base name of its file.
\<close>

record templates =
  edit_html :: "Page \<Rightarrow> string \<times> string option"
  view_html :: "Page \<Rightarrow> string \<times> string option"

definition ExecuteTemplate :: "templates \<Rightarrow> string \<Rightarrow> Page \<Rightarrow> string \<times> string option" where
  "ExecuteTemplate ts name p =
     (if name = ''edit.html'' then edit_html ts p
      else if name = ''view.html'' then view_html ts p
      else ([], Some (''html/template: \"'' @ name @ ''\" is undefined'')))"

definition renderTemplate :: "templates \<Rightarrow> string \<Rightarrow> Page \<Rightarrow> response" where
  "renderTemplate ts tmpl p =
     (case ExecuteTemplate ts (tmpl @ ''.html'') p of (out, err) \<Rightarrow> Executed out err)"

subsection \<open>Handlers\<close>

text \<open>A handler maps the request and the file system to the response and the new file system.\<close>

type_synonym handler = "request \<Rightarrow> fs \<Rightarrow> response \<times> fs"

definition rootHandler :: handler where
  "rootHandler r s = (Redirect ''/view/FrontPage'' StatusFound, s)"

definition viewHandler :: "templates \<Rightarrow> request \<Rightarrow> string \<Rightarrow> fs \<Rightarrow> response \<times> fs" where
  "viewHandler ts r title s =
     (case loadPage title s of
        Inl err \<Rightarrow> (Redirect (''/edit/'' @ title) StatusFound, s)
      | Inr p \<Rightarrow> (renderTemplate ts ''view'' p, s))"

definition editHandler :: "templates \<Rightarrow> request \<Rightarrow> string \<Rightarrow> fs \<Rightarrow> response \<times> fs" where
  "editHandler ts r title s =
     (let p = (case loadPage title s of
                 Inl err \<Rightarrow> \<lparr>Title = title, Body = []\<rparr>
               | Inr p \<Rightarrow> p)
      in (renderTemplate ts ''edit'' p, s))"

definition saveHandler :: "request \<Rightarrow> string \<Rightarrow> fs \<Rightarrow> response \<times> fs" where
  "saveHandler r title s =
     (let body = FormValue r ''body'';
          p = \<lparr>Title = title, Body = body\<rparr>
      in case save p s of
           Inl err \<Rightarrow> (Error (Error_text err) StatusInternalServerError, s)
         | Inr s' \<Rightarrow> (Redirect (''/view/'' @ title) StatusFound, s'))"

definition makeHandler :: "(request \<Rightarrow> string \<Rightarrow> fs \<Rightarrow> response \<times> fs) \<Rightarrow> handler" where
  "makeHandler fn r s =
     (case FindStringSubmatch (Path r) of
        None \<Rightarrow> (NotFound, s)
      | Some m \<Rightarrow> fn r (m ! 2) s)"

subsection \<open>The request multiplexer\<close>

text \<open>
  \<^verbatim>\<open>main\<close> registers four patterns with \<^verbatim>\<open>http.DefaultServeMux\<close> and serves with it. The
  multiplexer's documented behaviour, for patterns without a host:
  \<^item> a pattern that ends in a slash names a subtree and matches every path it is a prefix
    of, any other pattern matches its own path only; the longest matching pattern wins;
  \<^item> a request for a subtree's root without its trailing slash is redirected to the root;
  \<^item> a request whose path is not clean (\<^verbatim>\<open>.\<close> or \<^verbatim>\<open>..\<close> elements, repeated slashes) is
    redirected to the clean path, except for CONNECT requests;
  \<^item> the request target \<^verbatim>\<open>*\<close> (the only one whose path is \<^verbatim>\<open>*\<close>) is a bad request.
\<close>

text \<open>The elements of a path: the texts between its slashes.\<close>

fun elements :: "string \<Rightarrow> string list" where
  "elements [] = [[]]"
| "elements (c # cs) =
     (if c = CHR ''/'' then [] # elements cs
      else (c # hd (elements cs)) # tl (elements cs))"

text \<open>
  \<^verbatim>\<open>path.Clean\<close>, with the elements kept so far in reverse: empty elements and \<^verbatim>\<open>.\<close>
  are dropped; \<^verbatim>\<open>..\<close> removes the element before it, is dropped at the root of a rooted
  path and is kept at the start of a relative one.
\<close>

fun clean_elements :: "bool \<Rightarrow> string list \<Rightarrow> string list \<Rightarrow> string list" where
  "clean_elements rooted kept [] = kept"
| "clean_elements rooted kept (e # es) =
     (if e = [] \<or> e = ''.'' then clean_elements rooted kept es
      else if e = ''..'' then
        (case kept of
           [] \<Rightarrow> clean_elements rooted (if rooted then [] else [''..'']) es
         | k # ks \<Rightarrow>
             if k = ''..'' then clean_elements rooted (''..'' # kept) es
             else clean_elements rooted ks es)
      else clean_elements rooted (e # kept) es)"

fun join_slash :: "string list \<Rightarrow> string" where
  "join_slash [] = []"
| "join_slash [e] = e"
| "join_slash (e # es) = e @ ''/'' @ join_slash es"

definition path_Clean :: "string \<Rightarrow> string" where
  "path_Clean p =
     (if p = [] then ''.''
      else
        let rooted = (hd p = CHR ''/'');
            kept = rev (clean_elements rooted [] (elements p))
        in if rooted then ''/'' @ join_slash kept
           else if kept = [] then ''.'' else join_slash kept)"

text \<open>\<^verbatim>\<open>cleanPath\<close> of \<^verbatim>\<open>net/http\<close>: the canonical path, keeping a trailing slash.\<close>

definition cleanPath :: "string \<Rightarrow> string" where
  "cleanPath p =
     (if p = [] then ''/''
      else
        let p' = (if hd p \<noteq> CHR ''/'' then ''/'' @ p else p);
            np = path_Clean p'
        in if last p' = CHR ''/'' \<and> np \<noteq> ''/'' then np @ ''/'' else np)"

text \<open>The patterns and handlers of \<^verbatim>\<open>main\<close>, in the order of registration.\<close>

definition routes :: "templates \<Rightarrow> (string \<times> handler) list" where
  "routes ts =
     [(''/'', rootHandler),
      (''/view/'', makeHandler (viewHandler ts)),
      (''/edit/'', makeHandler (editHandler ts)),
      (''/save/'', makeHandler saveHandler)]"

text \<open>The longest subtree pattern that is a prefix of the path.\<close>

fun longest_subtree ::
  "(string \<times> 'h) list \<Rightarrow> string \<Rightarrow> (string \<times> 'h) option \<Rightarrow> (string \<times> 'h) option" where
  "longest_subtree [] p best = best"
| "longest_subtree ((pat, h) # es) p best =
     (if pat \<noteq> [] \<and> last pat = CHR ''/'' \<and> prefix pat p \<and>
         (case best of None \<Rightarrow> True | Some (b, _) \<Rightarrow> length b < length pat)
      then longest_subtree es p (Some (pat, h))
      else longest_subtree es p best)"

definition mux_match :: "(string \<times> 'h) list \<Rightarrow> string \<Rightarrow> 'h option" where
  "mux_match es p =
     (case map_of es p of
        Some h \<Rightarrow> Some h
      | None \<Rightarrow> map_option snd (longest_subtree es p None))"

definition shouldRedirect :: "(string \<times> 'h) list \<Rightarrow> string \<Rightarrow> bool" where
  "shouldRedirect es p \<longleftrightarrow>
     map_of es p = None \<and> p \<noteq> [] \<and> map_of es (p @ ''/'') \<noteq> None \<and> last p \<noteq> CHR ''/''"

definition mux_handler :: "(string \<times> handler) list \<Rightarrow> string \<Rightarrow> handler" where
  "mux_handler es p =
     (case mux_match es p of
        Some h \<Rightarrow> h
      | None \<Rightarrow> (\<lambda>r s. (NotFound, s)))"

definition ServeHTTP :: "templates \<Rightarrow> handler" where
  "ServeHTTP ts r s =
     (if Path r = ''*'' then (WriteHeader StatusBadRequest, s)
      else
        let p = (if Method r = ''CONNECT'' then Path r else cleanPath (Path r))
        in if shouldRedirect (routes ts) p then (PathRedirect (p @ ''/''), s)
           else if p \<noteq> Path r then (PathRedirect p, s)
           else mux_handler (routes ts) (Path r) r s)"

subsection \<open>Sequences of saves and example values\<close>

text \<open>Saving one body after the other to the same title, stopping at the first error.\<close>

fun save_all :: "string \<Rightarrow> string list \<Rightarrow> fs \<Rightarrow> error + fs" where
  "save_all title [] s = Inr s"
| "save_all title (b # bs) s =
     (case save \<lparr>Title = title, Body = b\<rparr> s of
        Inl err \<Rightarrow> Inl err
      | Inr s' \<Rightarrow> save_all title bs s')"

text \<open>
  Values for concrete runs: a file system with no files and umask 022; one that holds a page
  created by hand with mode 0644; one in which the page's file cannot be opened for writing;
  two templates without errors, standing for the template files; a GET request, a POST request
  with a form body, and a GET request with a query string.
\<close>

definition fresh_fs :: fs where
  "fresh_fs = \<lparr>files = Map.empty, umask = 18, rfault = Map.empty, wfault = Map.empty\<rparr>"

definition shared_fs :: fs where
  "shared_fs = fresh_fs\<lparr>files := [''data/Test.txt'' \<mapsto> \<lparr>content = ''old'', mode = 420\<rparr>]\<rparr>"

definition demo_templates :: templates where
  "demo_templates =
     \<lparr>edit_html = (\<lambda>p. (''<form>'' @ Body p @ ''</form>'', None)),
      view_html = (\<lambda>p. (''<h1>'' @ Title p @ ''</h1>'' @ Body p, None))\<rparr>"

definition get :: "string \<Rightarrow> request" where
  "get p = \<lparr>Method = ''GET'', Path = p, Query = [], PostBody = []\<rparr>"

definition post :: "string \<Rightarrow> string \<Rightarrow> request" where
  "post p b = \<lparr>Method = ''POST'', Path = p, Query = [], PostBody = [(''body'', b)]\<rparr>"

definition locked_fs :: fs where
  "locked_fs = fresh_fs\<lparr>wfault := [''data/Test.txt'' \<mapsto> EACCES]\<rparr>"


section \<open>Properties of the model\<close>

subsection \<open>The path pattern\<close>

lemma match_groups_Some:
  "match_groups as whole rest = Some m \<Longrightarrow>
     \<exists>a \<in> set as. m = [whole, a, drop (length a + 1) rest] \<and>
        take (length a + 1) rest = a @ ''/'' \<and> alnum_plus (drop (length a + 1) rest)"
  by (induction as) (auto split: if_splits)

lemma FindStringSubmatch_Some:
  assumes "FindStringSubmatch p = Some m"
  shows "\<exists>a t. (a = ''edit'' \<or> a = ''save'' \<or> a = ''view'') \<and> alnum_plus t \<and>
           p = ''/'' @ a @ ''/'' @ t \<and> m = [p, a, t]"
proof -
  from assms obtain rest where p: "p = CHR ''/'' # rest"
    and mg: "match_groups [''edit'', ''save'', ''view''] p rest = Some m"
    by (auto simp: FindStringSubmatch_def split: list.splits if_splits)
  from match_groups_Some [OF mg] obtain a where a: "a \<in> set [''edit'', ''save'', ''view'']"
    and m: "m = [p, a, drop (length a + 1) rest]"
    and tk: "take (length a + 1) rest = a @ ''/''"
    and al: "alnum_plus (drop (length a + 1) rest)" by blast
  have "rest = take (length a + 1) rest @ drop (length a + 1) rest" by simp
  with tk have "rest = a @ ''/'' @ drop (length a + 1) rest" by simp
  with p have "p = ''/'' @ a @ ''/'' @ drop (length a + 1) rest" by simp
  with a m al show ?thesis by auto
qed

lemma FindStringSubmatch_title:
  "FindStringSubmatch p = Some m \<Longrightarrow> alnum_plus (m ! 2)"
  by (drule FindStringSubmatch_Some) auto

lemma FindStringSubmatch_edit:
  "alnum_plus t \<Longrightarrow> p = ''/edit/'' @ t \<Longrightarrow> FindStringSubmatch p = Some [p, ''edit'', t]"
  by (simp add: FindStringSubmatch_def)

lemma FindStringSubmatch_save:
  "alnum_plus t \<Longrightarrow> p = ''/save/'' @ t \<Longrightarrow> FindStringSubmatch p = Some [p, ''save'', t]"
  by (simp add: FindStringSubmatch_def)

lemma FindStringSubmatch_view:
  "alnum_plus t \<Longrightarrow> p = ''/view/'' @ t \<Longrightarrow> FindStringSubmatch p = Some [p, ''view'', t]"
  by (simp add: FindStringSubmatch_def)

lemma alnum_plus_no_slash: "alnum_plus t \<Longrightarrow> CHR ''/'' \<notin> set t"
  by (auto simp: alnum_plus_def list_all_iff alnum_def)

lemma alnum_plus_no_dot: "alnum_plus t \<Longrightarrow> CHR ''.'' \<notin> set t"
  by (auto simp: alnum_plus_def list_all_iff alnum_def)

subsection \<open>The page store\<close>

lemma WriteFile_Inr:
  assumes "WriteFile n d perm s = Inr s'"
  shows "wfault s n = None"
    and "rfault s' = rfault s" and "wfault s' = wfault s" and "umask s' = umask s"
    and "\<exists>f. files s' = (files s)(n \<mapsto> f) \<and> content f = d \<and>
           mode f = (case files s n of None \<Rightarrow> perm AND NOT (umask s) | Some g \<Rightarrow> mode g)"
  using assms by (auto simp: WriteFile_def split: option.splits)

lemma WriteFile_ok:
  "wfault s n = None \<Longrightarrow> \<exists>s'. WriteFile n d perm s = Inr s'"
  by (simp add: WriteFile_def split: option.splits)

lemma WriteFile_fails:
  "wfault s n = Some e \<Longrightarrow> WriteFile n d perm s = Inl (PathError ''open'' n e)"
  by (simp add: WriteFile_def)

lemma loadPage_ok:
  "rfault s (filename_of t) = None \<Longrightarrow> files s (filename_of t) = Some f \<Longrightarrow>
     loadPage t s = Inr \<lparr>Title = t, Body = content f\<rparr>"
  by (simp add: loadPage_def ReadFile_def)

lemma loadPage_absent:
  "files s (filename_of t) = None \<Longrightarrow> \<exists>e. loadPage t s = Inl (PathError ''open'' (filename_of t) e)"
  by (simp add: loadPage_def ReadFile_def split: option.splits)

lemma loadPage_unreadable:
  "rfault s (filename_of t) = Some e \<Longrightarrow> loadPage t s = Inl (PathError ''open'' (filename_of t) e)"
  by (simp add: loadPage_def ReadFile_def)

lemma save_all_ok:
  "wfault s (filename_of title) = None \<Longrightarrow> \<exists>s'. save_all title bs s = Inr s'"
proof (induction bs arbitrary: s)
  case Nil
  show ?case by simp
next
  case (Cons b bs)
  from WriteFile_ok [OF Cons.prems] obtain s1
    where s1: "save \<lparr>Title = title, Body = b\<rparr> s = Inr s1"
    by (auto simp: save_def)
  then have "wfault s1 = wfault s" by (simp add: save_def WriteFile_Inr(3))
  with Cons.prems have "wfault s1 (filename_of title) = None" by simp
  from Cons.IH [OF this] s1 show ?case by simp
qed

lemma save_all_last:
  "save_all title bs s = Inr s' \<Longrightarrow> bs \<noteq> [] \<Longrightarrow>
     rfault s' = rfault s \<and> (\<exists>f. files s' (filename_of title) = Some f \<and> content f = last bs)"
proof (induction bs arbitrary: s)
  case Nil
  then show ?case by simp
next
  case (Cons b bs)
  from Cons.prems(1) obtain s1 where s1: "save \<lparr>Title = title, Body = b\<rparr> s = Inr s1"
    and rest: "save_all title bs s1 = Inr s'"
    by (auto split: sum.splits)
  from s1 have w: "WriteFile (filename_of title) b 384 s = Inr s1" by (simp add: save_def)
  show ?case
  proof (cases bs)
    case Nil
    with rest have "s' = s1" by simp
    with WriteFile_Inr(2,5) [OF w] Nil show ?thesis by auto
  next
    case (Cons c cs)
    with Cons.IH [OF rest] WriteFile_Inr(2) [OF w] show ?thesis by simp
  qed
qed

lemma owner_only: "((384 :: 32 word) AND NOT u) AND 63 = 0"
proof -
  have "((384 :: 32 word) AND NOT u) AND 63 = (384 AND 63) AND NOT u"
    by (simp add: ac_simps)
  then show ?thesis by simp
qed

subsection \<open>Dispatch\<close>




lemma mux_handler_view:
  "prefix ''/view/'' p \<Longrightarrow> mux_handler (routes ts) p = makeHandler (viewHandler ts)"
  by (auto simp: mux_handler_def mux_match_def routes_def prefix_def)

lemma mux_handler_edit:
  "prefix ''/edit/'' p \<Longrightarrow> mux_handler (routes ts) p = makeHandler (editHandler ts)"
  by (auto simp: mux_handler_def mux_match_def routes_def prefix_def)

lemma mux_handler_save:
  "prefix ''/save/'' p \<Longrightarrow> mux_handler (routes ts) p = makeHandler saveHandler"
  by (auto simp: mux_handler_def mux_match_def routes_def prefix_def)

lemma mux_handler_root:
  "p = CHR ''/'' # q \<Longrightarrow> \<not> prefix ''/view/'' p \<Longrightarrow> \<not> prefix ''/edit/'' p \<Longrightarrow>
   \<not> prefix ''/save/'' p \<Longrightarrow> mux_handler (routes ts) p = rootHandler"
  by (auto simp: mux_handler_def mux_match_def routes_def)

lemma mux_handler_none:
  "\<not> prefix ''/'' p \<Longrightarrow> mux_handler (routes ts) p = (\<lambda>r s. (NotFound, s))"
  by (auto simp: mux_handler_def mux_match_def routes_def prefix_def)

lemma shouldRedirect_iff:
  "shouldRedirect (routes ts) p \<longleftrightarrow> p = ''/view'' \<or> p = ''/edit'' \<or> p = ''/save''"
  by (auto simp: shouldRedirect_def routes_def)

lemma elements_no_slash: "CHR ''/'' \<notin> set t \<Longrightarrow> elements t = [t]"
  by (induction t) auto

lemma alnum_plus_not_dots: "alnum_plus t \<Longrightarrow> t \<noteq> [] \<and> t \<noteq> ''.'' \<and> t \<noteq> ''..''"
  by (auto simp: alnum_plus_def alnum_def)

lemma alnum_plus_last:
  assumes "alnum_plus t"
  shows "last t \<noteq> CHR ''/''"
proof -
  from assms have "t \<noteq> []" by (simp add: alnum_plus_def)
  then have "last t \<in> set t" by (rule last_in_set)
  with alnum_plus_no_slash [OF assms] show ?thesis by auto
qed

lemma cleanPath_view: "alnum_plus t \<Longrightarrow> p = ''/view/'' @ t \<Longrightarrow> cleanPath p = p"
  using alnum_plus_not_dots [of t] alnum_plus_last [of t]
  by (simp add: cleanPath_def path_Clean_def elements_no_slash [OF alnum_plus_no_slash])

lemma cleanPath_edit: "alnum_plus t \<Longrightarrow> p = ''/edit/'' @ t \<Longrightarrow> cleanPath p = p"
  using alnum_plus_not_dots [of t] alnum_plus_last [of t]
  by (simp add: cleanPath_def path_Clean_def elements_no_slash [OF alnum_plus_no_slash])

lemma cleanPath_save: "alnum_plus t \<Longrightarrow> p = ''/save/'' @ t \<Longrightarrow> cleanPath p = p"
  using alnum_plus_not_dots [of t] alnum_plus_last [of t]
  by (simp add: cleanPath_def path_Clean_def elements_no_slash [OF alnum_plus_no_slash])

lemma ServeHTTP_canonical:
  assumes "Method r = ''CONNECT'' \<or> cleanPath (Path r) = Path r"
    and "Path r \<noteq> ''*''" and "\<not> shouldRedirect (routes ts) (Path r)"
  shows "ServeHTTP ts r s = mux_handler (routes ts) (Path r) r s"
  using assms by (auto simp: ServeHTTP_def Let_def)

lemma ServeHTTP_view:
  assumes "alnum_plus t" and "Path r = ''/view/'' @ t"
  shows "ServeHTTP ts r s = viewHandler ts r t s"
proof -
  from assms have "ServeHTTP ts r s = mux_handler (routes ts) (Path r) r s"
    using cleanPath_view [of t "Path r"]
    by (intro ServeHTTP_canonical) (simp_all add: shouldRedirect_iff)
  also have "mux_handler (routes ts) (Path r) = makeHandler (viewHandler ts)"
    using assms(2) by (simp add: mux_handler_view)
  also have "makeHandler (viewHandler ts) r s = viewHandler ts r t s"
    using FindStringSubmatch_view [OF assms] by (simp add: makeHandler_def)
  finally show ?thesis .
qed

lemma ServeHTTP_edit:
  assumes "alnum_plus t" and "Path r = ''/edit/'' @ t"
  shows "ServeHTTP ts r s = editHandler ts r t s"
proof -
  from assms have "ServeHTTP ts r s = mux_handler (routes ts) (Path r) r s"
    using cleanPath_edit [of t "Path r"]
    by (intro ServeHTTP_canonical) (simp_all add: shouldRedirect_iff)
  also have "mux_handler (routes ts) (Path r) = makeHandler (editHandler ts)"
    using assms(2) by (simp add: mux_handler_edit)
  also have "makeHandler (editHandler ts) r s = editHandler ts r t s"
    using FindStringSubmatch_edit [OF assms] by (simp add: makeHandler_def)
  finally show ?thesis .
qed

lemma ServeHTTP_save:
  assumes "alnum_plus t" and "Path r = ''/save/'' @ t"
  shows "ServeHTTP ts r s = saveHandler r t s"
proof -
  from assms have "ServeHTTP ts r s = mux_handler (routes ts) (Path r) r s"
    using cleanPath_save [of t "Path r"]
    by (intro ServeHTTP_canonical) (simp_all add: shouldRedirect_iff)
  also have "mux_handler (routes ts) (Path r) = makeHandler saveHandler"
    using assms(2) by (simp add: mux_handler_save)
  also have "makeHandler saveHandler r s = saveHandler r t s"
    using FindStringSubmatch_save [OF assms] by (simp add: makeHandler_def)
  finally show ?thesis .
qed

lemma mux_handler_cases:
  "mux_handler (routes ts) p = rootHandler \<or>
   mux_handler (routes ts) p = makeHandler (viewHandler ts) \<or>
   mux_handler (routes ts) p = makeHandler (editHandler ts) \<or>
   mux_handler (routes ts) p = makeHandler saveHandler \<or>
   mux_handler (routes ts) p = (\<lambda>r s. (NotFound, s))"
proof (cases p)
  case Nil
  then have "\<not> prefix ''/'' p" by simp
  then show ?thesis by (simp add: mux_handler_none)
next
  case (Cons c q)
  show ?thesis
  proof (cases "c = CHR ''/''")
    case False
    with Cons have "\<not> prefix ''/'' p" by simp
    then show ?thesis by (simp add: mux_handler_none)
  next
    case True
    with Cons have "p = CHR ''/'' # q" by simp
    then show ?thesis
      using mux_handler_view [of p ts] mux_handler_edit [of p ts] mux_handler_save [of p ts]
        mux_handler_root [of p q ts]
      by blast
  qed
qed

lemma saveHandler_files:
  assumes "files (snd (saveHandler r t s)) n \<noteq> files s n"
  shows "n = filename_of t"
proof (cases "save \<lparr>Title = t, Body = FormValue r ''body''\<rparr> s")
  case (Inl e)
  with assms show ?thesis by (simp add: saveHandler_def)
next
  case (Inr s')
  then have "WriteFile (filename_of t) (FormValue r ''body'') 384 s = Inr s'"
    by (simp add: save_def)
  from WriteFile_Inr(5) [OF this] obtain f where "files s' = (files s)(filename_of t \<mapsto> f)"
    by blast
  with assms Inr show ?thesis by (auto simp: saveHandler_def split: if_splits)
qed

lemma makeHandler_files:
  assumes "files (snd (makeHandler fn r s)) n \<noteq> files s n"
    and "\<And>t. alnum_plus t \<Longrightarrow> files (snd (fn r t s)) n \<noteq> files s n \<Longrightarrow> n = filename_of t"
  shows "\<exists>t. alnum_plus t \<and> n = filename_of t"
proof (cases "FindStringSubmatch (Path r)")
  case None
  with assms(1) show ?thesis by (simp add: makeHandler_def)
next
  case (Some m)
  then have "alnum_plus (m ! 2)" by (rule FindStringSubmatch_title)
  moreover from Some assms(1) have "files (snd (fn r (m ! 2) s)) n \<noteq> files s n"
    by (simp add: makeHandler_def)
  ultimately show ?thesis using assms(2) by blast
qed

lemma viewHandler_fs: "snd (viewHandler ts r t s) = s"
  by (simp add: viewHandler_def split: sum.splits)

lemma editHandler_fs: "snd (editHandler ts r t s) = s"
  by (simp add: editHandler_def Let_def)

lemma mux_handler_files:
  assumes "files (snd (mux_handler (routes ts) p r s)) n \<noteq> files s n"
  shows "\<exists>t. alnum_plus t \<and> n = filename_of t"
proof -
  consider "mux_handler (routes ts) p = rootHandler"
    | "mux_handler (routes ts) p = makeHandler (viewHandler ts)"
    | "mux_handler (routes ts) p = makeHandler (editHandler ts)"
    | "mux_handler (routes ts) p = makeHandler saveHandler"
    | "mux_handler (routes ts) p = (\<lambda>r s. (NotFound, s))"
    using mux_handler_cases [of ts p] by blast
  then show ?thesis
  proof cases
    case 1
    with assms show ?thesis by (simp add: rootHandler_def)
  next
    case 2
    with assms show ?thesis by (auto intro: makeHandler_files simp: viewHandler_fs)
  next
    case 3
    with assms show ?thesis by (auto intro: makeHandler_files simp: editHandler_fs)
  next
    case 4
    with assms show ?thesis by (auto intro: makeHandler_files dest: saveHandler_files)
  next
    case 5
    with assms show ?thesis by simp
  qed
qed

lemma ServeHTTP_files:
  assumes "files (snd (ServeHTTP ts r s)) n \<noteq> files s n"
  shows "\<exists>t. alnum_plus t \<and> n = filename_of t"
proof -
  from assms have "files (snd (mux_handler (routes ts) (Path r) r s)) n \<noteq> files s n"
    by (auto simp: ServeHTTP_def Let_def split: if_splits)
  then show ?thesis by (rule mux_handler_files)
qed


lemma save_content:
  assumes "save p s = Inr s'"
  shows "\<exists>f. files s' = (files s)(filename_of (Title p) \<mapsto> f) \<and> content f = Body p \<and>
           mode f = (case files s (filename_of (Title p)) of
                       None \<Rightarrow> 384 AND NOT (umask s) | Some g \<Rightarrow> mode g)"
  using assms WriteFile_Inr(5) [of "filename_of (Title p)" "Body p" 384 s s']
  by (simp add: save_def)


section \<open>The specification's claims\<close>

text \<open>
  \<^bold>\<open>C1.\<close> Saving a sequence of bodies to one title and then loading the title returns
  the body saved last: one save and a load give the body back unchanged, and a later save
  replaces what an earlier one stored. Here every save of the sequence succeeds (which it
  does when the operating system does not refuse the write) and the read is not refused.
  The title need not be alphanumeric.
\<close>

theorem save_then_load:
  assumes "bs \<noteq> []" and "rfault s (filename_of title) = None"
  shows "(wfault s (filename_of title) = None \<longrightarrow> (\<exists>s'. save_all title bs s = Inr s')) \<and>
         (\<forall>s'. save_all title bs s = Inr s' \<longrightarrow>
            loadPage title s' = Inr \<lparr>Title = title, Body = last bs\<rparr>)"
proof (intro conjI impI allI)
  assume "wfault s (filename_of title) = None"
  then show "\<exists>s'. save_all title bs s = Inr s'" by (rule save_all_ok)
next
  fix s' assume s': "save_all title bs s = Inr s'"
  from save_all_last [OF s' assms(1)] obtain f
    where "rfault s' = rfault s" "files s' (filename_of title) = Some f" "content f = last bs"
    by blast
  with assms(2) loadPage_ok [of s' title f]
  show "loadPage title s' = Inr \<lparr>Title = title, Body = last bs\<rparr>" by simp
qed

lemma w1: "save_all ''Test'' [''hello'', ''world''] fresh_fs = Inr (fresh_fs\<lparr>files := [''data/Test.txt'' \<mapsto> \<lparr>content = ''world'', mode = 384\<rparr>]\<rparr>)"
  by (simp add: save_def WriteFile_def filename_of_def fresh_fs_def)

theorem save_then_load_witness:
  "save_all ''Test'' [''hello''] fresh_fs =
     Inr (fresh_fs\<lparr>files := [''data/Test.txt'' \<mapsto> \<lparr>content = ''hello'', mode = 384\<rparr>]\<rparr>) \<and>
   loadPage ''Test''
     (fresh_fs\<lparr>files := [''data/Test.txt'' \<mapsto> \<lparr>content = ''hello'', mode = 384\<rparr>]\<rparr>) =
     Inr \<lparr>Title = ''Test'', Body = ''hello''\<rparr> \<and>
   save_all ''Test'' [''hello'', ''world''] fresh_fs =
     Inr (fresh_fs\<lparr>files := [''data/Test.txt'' \<mapsto> \<lparr>content = ''world'', mode = 384\<rparr>]\<rparr>) \<and>
   loadPage ''Test''
     (fresh_fs\<lparr>files := [''data/Test.txt'' \<mapsto> \<lparr>content = ''world'', mode = 384\<rparr>]\<rparr>) =
     Inr \<lparr>Title = ''Test'', Body = ''world''\<rparr>"
proof -
  have r: "rfault fresh_fs (filename_of ''Test'') = None" by (simp add: fresh_fs_def)
  have a: "save_all ''Test'' [''hello''] fresh_fs =
     Inr (fresh_fs\<lparr>files := [''data/Test.txt'' \<mapsto> \<lparr>content = ''hello'', mode = 384\<rparr>]\<rparr>)"
    by (simp add: save_def WriteFile_def filename_of_def fresh_fs_def)
  have b: "save_all ''Test'' [''hello'', ''world''] fresh_fs =
     Inr (fresh_fs\<lparr>files := [''data/Test.txt'' \<mapsto> \<lparr>content = ''world'', mode = 384\<rparr>]\<rparr>)"
    by (simp add: save_def WriteFile_def filename_of_def fresh_fs_def)
  from save_then_load [of "[''hello'']" fresh_fs "''Test''", OF _ r] a
    save_then_load [of "[''hello'', ''world'']" fresh_fs "''Test''", OF _ r] b
  show ?thesis by simp
qed

text \<open>
  \<^bold>\<open>C2.\<close> Whatever the request, a handler wrapped by \<^verbatim>\<open>makeHandler\<close> is either not
  called at all (the response is 404) or called with a title of one or more alphanumeric
  characters, the same for every wrapped handler. Hence the only files the server ever
  changes are \<^verbatim>\<open>data/<title>.txt\<close> for such a title, and the path
  \<^verbatim>\<open>/view/../../etc/passwd\<close> reaches no wrapped handler.
\<close>

theorem titles_alphanumeric:
  "((FindStringSubmatch (Path r) = None \<and> (\<forall>fn. makeHandler fn r s = (NotFound, s))) \<or>
    (\<exists>t. alnum_plus t \<and> (\<forall>fn. makeHandler fn r s = fn r t s))) \<and>
   (files (snd (ServeHTTP ts r s)) n \<noteq> files s n \<longrightarrow>
      (\<exists>t. alnum_plus t \<and> n = ''data/'' @ t @ ''.txt'')) \<and>
   (Path r = ''/view/../../etc/passwd'' \<longrightarrow> (\<forall>fn. makeHandler fn r s = (NotFound, s)))"
proof (intro conjI impI)
  show "(FindStringSubmatch (Path r) = None \<and> (\<forall>fn. makeHandler fn r s = (NotFound, s))) \<or>
    (\<exists>t. alnum_plus t \<and> (\<forall>fn. makeHandler fn r s = fn r t s))"
  proof (cases "FindStringSubmatch (Path r)")
    case None
    then show ?thesis by (simp add: makeHandler_def)
  next
    case (Some m)
    then have "alnum_plus (m ! 2)" by (rule FindStringSubmatch_title)
    moreover from Some have "\<forall>fn. makeHandler fn r s = fn r (m ! 2) s"
      by (simp add: makeHandler_def)
    ultimately show ?thesis by blast
  qed
next
  assume "files (snd (ServeHTTP ts r s)) n \<noteq> files s n"
  from ServeHTTP_files [OF this] show "\<exists>t. alnum_plus t \<and> n = ''data/'' @ t @ ''.txt''"
    by (simp add: filename_of_def)
next
  assume "Path r = ''/view/../../etc/passwd''"
  then have "FindStringSubmatch (Path r) = None"
    by (simp add: FindStringSubmatch_def alnum_plus_def alnum_def)
  then show "\<forall>fn. makeHandler fn r s = (NotFound, s)" by (simp add: makeHandler_def)
qed

theorem titles_alphanumeric_witness:
  "files (snd (ServeHTTP demo_templates (post ''/save/Test'' ''hello'') fresh_fs)) ''data/Test.txt''
     \<noteq> files fresh_fs ''data/Test.txt'' \<and>
   (\<exists>t. alnum_plus t \<and> ''data/Test.txt'' = ''data/'' @ t @ ''.txt'') \<and>
   makeHandler saveHandler (post ''/view/../../etc/passwd'' ''x'') fresh_fs = (NotFound, fresh_fs)"
proof -
  have a: "alnum_plus ''Test''" by (simp add: alnum_plus_def alnum_def)
  have "ServeHTTP demo_templates (post ''/save/Test'' ''hello'') fresh_fs =
          saveHandler (post ''/save/Test'' ''hello'') ''Test'' fresh_fs"
    by (rule ServeHTTP_save [OF a]) (simp add: post_def)
  then have c: "files (snd (ServeHTTP demo_templates (post ''/save/Test'' ''hello'') fresh_fs))
      ''data/Test.txt'' \<noteq> files fresh_fs ''data/Test.txt''"
    by (simp add: saveHandler_def save_def WriteFile_def filename_of_def fresh_fs_def
        FormValue_def ParseForm_def post_def)
  have p: "Path (post ''/view/../../etc/passwd'' ''x'') = ''/view/../../etc/passwd''"
    by (simp add: post_def)
  from titles_alphanumeric [of "post ''/save/Test'' ''hello''" fresh_fs demo_templates
      "''data/Test.txt''"] c
    titles_alphanumeric [of "post ''/view/../../etc/passwd'' ''x''" fresh_fs demo_templates
      "''data/Test.txt''"] p
  show ?thesis by blast
qed




text \<open>
  \<^bold>\<open>C4.\<close> For a request to \<^verbatim>\<open>/save/<title>\<close> with an alphanumeric title, the server saves
  the page made of that title and the form value \<^verbatim>\<open>body\<close>. When the save fails the
  response is 500 with the error's text and the file system is unchanged; when it succeeds
  the response is a 302 redirect to \<^verbatim>\<open>/view/<title>\<close> and the file
  \<^verbatim>\<open>data/<title>.txt\<close> holds the form value.
\<close>

theorem save_handler_outcomes:
  assumes "alnum_plus t" and "Path r = ''/save/'' @ t"
  shows "(\<forall>err. save \<lparr>Title = t, Body = FormValue r ''body''\<rparr> s = Inl err \<longrightarrow>
            ServeHTTP ts r s = (Error (Error_text err) 500, s)) \<and>
         (\<forall>s'. save \<lparr>Title = t, Body = FormValue r ''body''\<rparr> s = Inr s' \<longrightarrow>
            ServeHTTP ts r s = (Redirect (''/view/'' @ t) 302, s') \<and>
            map_option content (files s' (''data/'' @ t @ ''.txt'')) = Some (FormValue r ''body''))"
proof (intro conjI allI impI)
  fix err assume "save \<lparr>Title = t, Body = FormValue r ''body''\<rparr> s = Inl err"
  then show "ServeHTTP ts r s = (Error (Error_text err) 500, s)"
    by (simp add: ServeHTTP_save [OF assms] saveHandler_def StatusInternalServerError_def)
next
  fix s' assume s': "save \<lparr>Title = t, Body = FormValue r ''body''\<rparr> s = Inr s'"
  then show "ServeHTTP ts r s = (Redirect (''/view/'' @ t) 302, s')"
    by (simp add: ServeHTTP_save [OF assms] saveHandler_def StatusFound_def)
  from save_content [OF s']
  show "map_option content (files s' (''data/'' @ t @ ''.txt'')) = Some (FormValue r ''body'')"
    by (auto simp: filename_of_def)
qed

theorem save_handler_outcomes_witness:
  "ServeHTTP demo_templates (post ''/save/Test'' ''hello'') fresh_fs =
     (Redirect ''/view/Test'' 302,
      fresh_fs\<lparr>files := [''data/Test.txt'' \<mapsto> \<lparr>content = ''hello'', mode = 384\<rparr>]\<rparr>) \<and>
   ServeHTTP demo_templates (post ''/save/Test'' ''hello'') locked_fs =
     (Error ''open data/Test.txt: permission denied'' 500, locked_fs)"
proof -
  have a: "alnum_plus ''Test''" by (simp add: alnum_plus_def alnum_def)
  have p: "Path (post ''/save/Test'' ''hello'') = ''/save/'' @ ''Test''" by (simp add: post_def)
  have f: "FormValue (post ''/save/Test'' ''hello'') ''body'' = ''hello''"
    by (simp add: FormValue_def ParseForm_def post_def)
  have 1: "save \<lparr>Title = ''Test'', Body = ''hello''\<rparr> fresh_fs =
      Inr (fresh_fs\<lparr>files := [''data/Test.txt'' \<mapsto> \<lparr>content = ''hello'', mode = 384\<rparr>]\<rparr>)"
    by (simp add: save_def WriteFile_def filename_of_def fresh_fs_def)
  have 2: "save \<lparr>Title = ''Test'', Body = ''hello''\<rparr> locked_fs =
      Inl (PathError ''open'' ''data/Test.txt'' EACCES)"
    by (simp add: save_def WriteFile_def filename_of_def locked_fs_def fresh_fs_def)
  from save_handler_outcomes [OF a p, of fresh_fs demo_templates]
    save_handler_outcomes [OF a p, of locked_fs demo_templates] f 1 2
  show ?thesis by simp
qed

text \<open>
  \<^bold>\<open>C5.\<close> For a request to \<^verbatim>\<open>/view/<title>\<close> with an alphanumeric title: when the page
  cannot be loaded (in particular when its file does not exist) the response is a 302
  redirect to \<^verbatim>\<open>/edit/<title>\<close>; when it loads, the response is the execution of the
  template \<^verbatim>\<open>view.html\<close> on the loaded page, and not a redirect.
\<close>

theorem view_handler_outcomes:
  assumes "alnum_plus t" and "Path r = ''/view/'' @ t"
  shows "(\<forall>err. loadPage t s = Inl err \<longrightarrow>
            ServeHTTP ts r s = (Redirect (''/edit/'' @ t) 302, s)) \<and>
         (\<forall>p. loadPage t s = Inr p \<longrightarrow>
            ServeHTTP ts r s = (Executed (fst (view_html ts p)) (snd (view_html ts p)), s)) \<and>
         (files s (''data/'' @ t @ ''.txt'') = None \<longrightarrow>
            ServeHTTP ts r s = (Redirect (''/edit/'' @ t) 302, s))"
proof (intro conjI allI impI)
  fix err assume "loadPage t s = Inl err"
  then show "ServeHTTP ts r s = (Redirect (''/edit/'' @ t) 302, s)"
    by (simp add: ServeHTTP_view [OF assms] viewHandler_def StatusFound_def)
next
  fix p assume "loadPage t s = Inr p"
  then show "ServeHTTP ts r s = (Executed (fst (view_html ts p)) (snd (view_html ts p)), s)"
    by (simp add: ServeHTTP_view [OF assms] viewHandler_def renderTemplate_def
        ExecuteTemplate_def split: prod.splits)
next
  assume "files s (''data/'' @ t @ ''.txt'') = None"
  then have "files s (filename_of t) = None" by (simp add: filename_of_def)
  from loadPage_absent [OF this] obtain e
    where "loadPage t s = Inl (PathError ''open'' (filename_of t) e)" ..
  then show "ServeHTTP ts r s = (Redirect (''/edit/'' @ t) 302, s)"
    by (simp add: ServeHTTP_view [OF assms] viewHandler_def StatusFound_def)
qed

theorem view_handler_outcomes_witness:
  "ServeHTTP demo_templates (get ''/view/NoSuchPage'') shared_fs =
     (Redirect ''/edit/NoSuchPage'' 302, shared_fs) \<and>
   ServeHTTP demo_templates (get ''/view/Test'') shared_fs =
     (Executed ''<h1>Test</h1>old'' None, shared_fs)"
proof -
  have a: "alnum_plus ''NoSuchPage''" "alnum_plus ''Test''"
    by (simp_all add: alnum_plus_def alnum_def)
  have p: "Path (get ''/view/NoSuchPage'') = ''/view/'' @ ''NoSuchPage''"
    "Path (get ''/view/Test'') = ''/view/'' @ ''Test''" by (simp_all add: get_def)
  have 1: "files shared_fs (''data/'' @ ''NoSuchPage'' @ ''.txt'') = None"
    by (simp add: shared_fs_def fresh_fs_def)
  have 2: "loadPage ''Test'' shared_fs = Inr \<lparr>Title = ''Test'', Body = ''old''\<rparr>"
    by (simp add: loadPage_def ReadFile_def filename_of_def shared_fs_def fresh_fs_def)
  from view_handler_outcomes [OF a(1) p(1), of shared_fs demo_templates]
    view_handler_outcomes [OF a(2) p(2), of shared_fs demo_templates] 1 2
  show ?thesis by (simp add: demo_templates_def)
qed

text \<open>
  \<^bold>\<open>C6.\<close> For a request to \<^verbatim>\<open>/edit/<title>\<close> with an alphanumeric title the response is
  always the execution of the template \<^verbatim>\<open>edit.html\<close> on a page of that title: the loaded
  page when loading succeeds, and the page with the empty body when it fails. The status is
  200 when the template executes without error.
\<close>

theorem edit_handler_outcomes:
  assumes "alnum_plus t" and "Path r = ''/edit/'' @ t"
  shows "(\<forall>err. loadPage t s = Inl err \<longrightarrow>
            ServeHTTP ts r s =
              (Executed (fst (edit_html ts \<lparr>Title = t, Body = []\<rparr>))
                        (snd (edit_html ts \<lparr>Title = t, Body = []\<rparr>)), s)) \<and>
         (\<forall>p. loadPage t s = Inr p \<longrightarrow>
            ServeHTTP ts r s = (Executed (fst (edit_html ts p)) (snd (edit_html ts p)), s)) \<and>
         (\<exists>p. Title p = t \<and> ServeHTTP ts r s = (renderTemplate ts ''edit'' p, s)) \<and>
         ((\<forall>p. snd (edit_html ts p) = None) \<longrightarrow> status (fst (ServeHTTP ts r s)) = 200)"
proof -
  define p where "p = (case loadPage t s of Inl err \<Rightarrow> \<lparr>Title = t, Body = []\<rparr> | Inr p \<Rightarrow> p)"
  have e: "ServeHTTP ts r s = (renderTemplate ts ''edit'' p, s)"
    by (simp add: ServeHTTP_edit [OF assms] editHandler_def p_def)
  have r: "renderTemplate ts ''edit'' q = Executed (fst (edit_html ts q)) (snd (edit_html ts q))" for q
    by (simp add: renderTemplate_def ExecuteTemplate_def split: prod.splits)
  have t: "Title p = t"
    by (auto simp: p_def loadPage_def split: sum.splits)
  show ?thesis
  proof (intro conjI allI impI)
    fix err assume "loadPage t s = Inl err"
    then have "p = \<lparr>Title = t, Body = []\<rparr>" by (simp add: p_def)
    with e r show "ServeHTTP ts r s =
              (Executed (fst (edit_html ts \<lparr>Title = t, Body = []\<rparr>))
                        (snd (edit_html ts \<lparr>Title = t, Body = []\<rparr>)), s)" by simp
  next
    fix q assume "loadPage t s = Inr q"
    then have "p = q" by (simp add: p_def)
    with e r show "ServeHTTP ts r s = (Executed (fst (edit_html ts q)) (snd (edit_html ts q)), s)"
      by simp
  next
    from t e show "\<exists>p. Title p = t \<and> ServeHTTP ts r s = (renderTemplate ts ''edit'' p, s)"
      by blast
  next
    assume "\<forall>p. snd (edit_html ts p) = None"
    with e r show "status (fst (ServeHTTP ts r s)) = 200" by (simp add: StatusOK_def)
  qed
qed

theorem edit_handler_outcomes_witness:
  "ServeHTTP demo_templates (get ''/edit/NoSuchPage'') shared_fs =
     (Executed ''<form></form>'' None, shared_fs) \<and>
   status (fst (ServeHTTP demo_templates (get ''/edit/NoSuchPage'') shared_fs)) = 200 \<and>
   ServeHTTP demo_templates (get ''/edit/Test'') shared_fs =
     (Executed ''<form>old</form>'' None, shared_fs)"
proof -
  have a: "alnum_plus ''NoSuchPage''" "alnum_plus ''Test''"
    by (simp_all add: alnum_plus_def alnum_def)
  have p: "Path (get ''/edit/NoSuchPage'') = ''/edit/'' @ ''NoSuchPage''"
    "Path (get ''/edit/Test'') = ''/edit/'' @ ''Test''" by (simp_all add: get_def)
  have 1: "loadPage ''NoSuchPage'' shared_fs = Inl (PathError ''open'' ''data/NoSuchPage.txt'' ENOENT)"
    by (simp add: loadPage_def ReadFile_def filename_of_def shared_fs_def fresh_fs_def)
  have 2: "loadPage ''Test'' shared_fs = Inr \<lparr>Title = ''Test'', Body = ''old''\<rparr>"
    by (simp add: loadPage_def ReadFile_def filename_of_def shared_fs_def fresh_fs_def)
  have 3: "\<forall>p. snd (edit_html demo_templates p) = None" by (simp add: demo_templates_def)
  from edit_handler_outcomes [OF a(1) p(1), of shared_fs demo_templates]
    edit_handler_outcomes [OF a(2) p(2), of shared_fs demo_templates] 1 2 3
  show ?thesis by (simp add: demo_templates_def StatusOK_def)
qed

text \<open>
  \<^bold>\<open>C7.\<close> A successful save leaves the page's body as the content of
  \<^verbatim>\<open>data/<Title>.txt\<close> and changes no other file. When the file did not exist it is
  created with mode 0600 less the bits of the umask, so with no permission for group or
  others; when it existed, its content is replaced and its mode is kept. Loading reads the
  same path: it fails with the error of the open when the file is absent or the read is
  refused, and otherwise returns the title with the file's content.
\<close>

theorem save_and_load_files:
  "(\<forall>s'. save p s = Inr s' \<longrightarrow>
      (\<exists>f. files s' (''data/'' @ Title p @ ''.txt'') = Some f \<and> content f = Body p \<and>
           (case files s (''data/'' @ Title p @ ''.txt'') of
              None \<Rightarrow> mode f = 384 AND NOT (umask s) \<and> mode f AND 63 = 0
            | Some g \<Rightarrow> mode f = mode g)) \<and>
      (\<forall>n. n \<noteq> ''data/'' @ Title p @ ''.txt'' \<longrightarrow> files s' n = files s n)) \<and>
   (files s (''data/'' @ t @ ''.txt'') = None \<or> rfault s (''data/'' @ t @ ''.txt'') \<noteq> None \<longrightarrow>
      (\<exists>e. loadPage t s = Inl (PathError ''open'' (''data/'' @ t @ ''.txt'') e))) \<and>
   (\<forall>f. files s (''data/'' @ t @ ''.txt'') = Some f \<and> rfault s (''data/'' @ t @ ''.txt'') = None \<longrightarrow>
      loadPage t s = Inr \<lparr>Title = t, Body = content f\<rparr>)"
proof (intro conjI allI impI)
  fix s' assume "save p s = Inr s'"
  from save_content [OF this] obtain f
    where f: "files s' = (files s)(filename_of (Title p) \<mapsto> f)" "content f = Body p"
      "mode f = (case files s (filename_of (Title p)) of
                   None \<Rightarrow> 384 AND NOT (umask s) | Some g \<Rightarrow> mode g)"
    by blast
  from f show "\<exists>f. files s' (''data/'' @ Title p @ ''.txt'') = Some f \<and> content f = Body p \<and>
           (case files s (''data/'' @ Title p @ ''.txt'') of
              None \<Rightarrow> mode f = 384 AND NOT (umask s) \<and> mode f AND 63 = 0
            | Some g \<Rightarrow> mode f = mode g)"
    by (auto simp: filename_of_def owner_only split: option.splits)
  fix n assume "n \<noteq> ''data/'' @ Title p @ ''.txt''"
  with f(1) show "files s' n = files s n" by (simp add: filename_of_def)
next
  assume "files s (''data/'' @ t @ ''.txt'') = None \<or> rfault s (''data/'' @ t @ ''.txt'') \<noteq> None"
  then show "\<exists>e. loadPage t s = Inl (PathError ''open'' (''data/'' @ t @ ''.txt'') e)"
    using loadPage_absent [of s t] loadPage_unreadable [of s t]
    by (auto simp: filename_of_def)
next
  fix f assume "files s (''data/'' @ t @ ''.txt'') = Some f \<and> rfault s (''data/'' @ t @ ''.txt'') = None"
  then show "loadPage t s = Inr \<lparr>Title = t, Body = content f\<rparr>"
    using loadPage_ok [of s t f] by (simp add: filename_of_def)
qed

theorem save_and_load_files_witness:
  "save \<lparr>Title = ''Test'', Body = ''hello''\<rparr> fresh_fs =
     Inr (fresh_fs\<lparr>files := [''data/Test.txt'' \<mapsto> \<lparr>content = ''hello'', mode = 384\<rparr>]\<rparr>) \<and>
   (\<exists>f. [''data/Test.txt'' \<mapsto> \<lparr>content = ''hello'', mode = 384\<rparr>] ''data/Test.txt'' = Some f \<and>
        content f = ''hello'' \<and> mode f AND 63 = 0) \<and>
   (\<exists>e. loadPage ''Test'' fresh_fs = Inl (PathError ''open'' ''data/Test.txt'' e)) \<and>
   loadPage ''Test'' shared_fs = Inr \<lparr>Title = ''Test'', Body = ''old''\<rparr>"
proof -
  have 1: "save \<lparr>Title = ''Test'', Body = ''hello''\<rparr> fresh_fs =
     Inr (fresh_fs\<lparr>files := [''data/Test.txt'' \<mapsto> \<lparr>content = ''hello'', mode = 384\<rparr>]\<rparr>)"
    by (simp add: save_def WriteFile_def filename_of_def fresh_fs_def)
  have 2: "files fresh_fs (''data/'' @ ''Test'' @ ''.txt'') = None" by (simp add: fresh_fs_def)
  have 3: "files shared_fs (''data/'' @ ''Test'' @ ''.txt'') = Some \<lparr>content = ''old'', mode = 420\<rparr>"
    "rfault shared_fs (''data/'' @ ''Test'' @ ''.txt'') = None"
    by (simp_all add: shared_fs_def fresh_fs_def)
  note t = save_and_load_files [of "\<lparr>Title = ''Test'', Body = ''hello''\<rparr>" fresh_fs "''Test''"]
  note u = save_and_load_files [of "\<lparr>Title = ''Test'', Body = ''hello''\<rparr>" shared_fs "''Test''"]
  from t 1 2 have a: "\<exists>f. [''data/Test.txt'' \<mapsto> \<lparr>content = ''hello'', mode = 384\<rparr>] ''data/Test.txt'' = Some f \<and>
        content f = ''hello'' \<and> mode f AND 63 = 0" by simp
  from t 2 have b: "\<exists>e. loadPage ''Test'' fresh_fs = Inl (PathError ''open'' ''data/Test.txt'' e)"
    by simp
  from u 3 have c: "loadPage ''Test'' shared_fs = Inr \<lparr>Title = ''Test'', Body = ''old''\<rparr>"
    by simp
  from 1 a b c show ?thesis by blast
qed

text \<open>
  \<^bold>\<open>C7\<close>, as worded, fails on a file that exists: saving over a page of mode 0644
  succeeds and the file is still readable by group and others.
\<close>

theorem existing_mode_kept:
  "save \<lparr>Title = ''Test'', Body = ''hello''\<rparr> shared_fs =
     Inr (shared_fs\<lparr>files := [''data/Test.txt'' \<mapsto> \<lparr>content = ''hello'', mode = 420\<rparr>]\<rparr>) \<and>
   (420 :: FileMode) \<noteq> 384 \<and> (420 :: FileMode) AND 63 \<noteq> 0"
  by (simp add: save_def WriteFile_def filename_of_def shared_fs_def fresh_fs_def)

text \<open>
  \<^bold>\<open>C8.\<close> A request for the path \<^verbatim>\<open>/\<close>, of GET or any other method, is answered with a
  302 redirect to \<^verbatim>\<open>/view/FrontPage\<close>.
\<close>

theorem root_redirect:
  "Path r = ''/'' \<Longrightarrow>
     ServeHTTP ts r s = (Redirect ''/view/FrontPage'' 302, s) \<and>
     status (fst (ServeHTTP ts r s)) = 302"
proof -
  assume p: "Path r = ''/''"
  have c: "cleanPath ''/'' = ''/''" by (simp add: cleanPath_def path_Clean_def)
  have "ServeHTTP ts r s = mux_handler (routes ts) (Path r) r s"
    by (rule ServeHTTP_canonical) (simp_all add: p c shouldRedirect_iff)
  also have "mux_handler (routes ts) (Path r) = rootHandler"
    by (rule mux_handler_root [of _ "[]"]) (simp_all add: p)
  finally show ?thesis by (simp add: rootHandler_def StatusFound_def)
qed

theorem root_redirect_witness:
  "Path (get ''/'') = ''/'' \<and> Method (get ''/'') = ''GET'' \<and>
   ServeHTTP demo_templates (get ''/'') shared_fs = (Redirect ''/view/FrontPage'' 302, shared_fs)"
  using root_redirect [of "get ''/''" demo_templates shared_fs] by (simp add: get_def)






end
